theory Spec2Isabelle
  imports Main
begin

section \<open>Values\<close>

text \<open>
  \<^verbatim>\<open>src/types.ts\<close>: \<^verbatim>\<open>export type StateValue<T> = T | null | undefined\<close>. The type
  parameters are erased when the program runs: a cell, a handler's result and a
  rejection reason are JavaScript values. The values of the model are \<^verbatim>\<open>null\<close>,
  \<^verbatim>\<open>undefined\<close>, the booleans, the numbers the scenarios use (the integers and \<^verbatim>\<open>NaN\<close>),
  the strings and the objects. An object is a reference: the model keeps the reference
  with the value, and of an \<^verbatim>\<open>Error\<close> object also its message, so two objects made by
  two \<^verbatim>\<open>new\<close> are two values even when their contents agree. An object is taken
  not to be changed while a cell holds it: one reference does not come with two
  messages.
\<close>

datatype js_value =
    Null
  | Undefined
  | Boolean bool
  | Number int
  | NaN
  | Text string
  | Error nat string
  | Object nat

text \<open>
  \<^verbatim>\<open>x === y\<close>: the same primitive value or the same object; \<^verbatim>\<open>NaN\<close> is not \<^verbatim>\<open>===\<close>
  to itself. \<^verbatim>\<open>x !== y\<close> is its negation.
\<close>

definition strict_equal :: "js_value \<Rightarrow> js_value \<Rightarrow> bool" where
  "strict_equal x y = (x = y \<and> x \<noteq> NaN)"

section \<open>The store of the reactive engine\<close>

text \<open>
  The repository builds every cell on effector's \<^verbatim>\<open>createStore\<close>, \<^verbatim>\<open>createEvent\<close>,
  \<^verbatim>\<open>store.on\<close>, \<^verbatim>\<open>store.reset\<close>, \<^verbatim>\<open>store.watch\<close> and \<^verbatim>\<open>store.getState\<close>. The part of
  the engine the wrappers rely on is:
  \<^item> \<^verbatim>\<open>createStore(state)\<close> raises when \<^verbatim>\<open>state\<close> is \<^verbatim>\<open>undefined\<close>; otherwise the store
    keeps its current state and the state it was created with (\<^verbatim>\<open>defaultState\<close>);
  \<^item> when an event wired with \<^verbatim>\<open>.on(event, reducer)\<close> is called, the reducer's result
    replaces the state unless it is \<^verbatim>\<open>undefined\<close> or \<^verbatim>\<open>===\<close> the current state; in
    both of these cases the store does not update and no watcher runs;
  \<^item> \<^verbatim>\<open>.reset(event)\<close> is the reducer that returns \<^verbatim>\<open>defaultState\<close>;
  \<^item> \<^verbatim>\<open>store.watch(fn)\<close> calls \<^verbatim>\<open>fn\<close> at once with the current state, then after
    every update of the store, and returns the function that removes the watcher.

  A watcher is a callback of the caller's. It is recorded by the number of its
  subscription, and each of its invocations is an entry \<open>(watcher, argument)\<close> of the
  log \<open>calls\<close>, oldest first.
\<close>

record store =
  defaultState :: js_value
  currentState :: js_value
  watchers :: "nat list"
  nextWatcher :: nat
  calls :: "(nat \<times> js_value) list"

datatype thrown = StateUndefined

definition new_store :: "js_value \<Rightarrow> store" where
  "new_store v =
     \<lparr>defaultState = v, currentState = v, watchers = [], nextWatcher = 0, calls = []\<rparr>"

definition createStore :: "js_value \<Rightarrow> thrown + store" where
  "createStore v = (if v = Undefined then Inl StateUndefined else Inr (new_store v))"

definition getState :: "store \<Rightarrow> js_value" where
  "getState s = currentState s"

text \<open>The store's node: the filter on an incoming state, the move, the watchers.\<close>

definition accepts :: "store \<Rightarrow> js_value \<Rightarrow> bool" where
  "accepts s upd = (upd \<noteq> Undefined \<and> \<not> strict_equal upd (currentState s))"

definition store_update :: "store \<Rightarrow> js_value \<Rightarrow> store" where
  "store_update s upd =
     (if accepts s upd
      then s\<lparr>currentState := upd,
             calls := calls s @ map (\<lambda>w. (w, upd)) (watchers s)\<rparr>
      else s)"

definition watch :: "store \<Rightarrow> store \<times> nat" where
  "watch s =
     (s\<lparr>watchers := watchers s @ [nextWatcher s],
        nextWatcher := Suc (nextWatcher s),
        calls := calls s @ [(nextWatcher s, currentState s)]\<rparr>,
      nextWatcher s)"

definition unwatch :: "store \<Rightarrow> nat \<Rightarrow> store" where
  "unwatch s w = s\<lparr>watchers := removeAll w (watchers s)\<rparr>"

section \<open>Primitive state cell: \<^verbatim>\<open>src/state.ts\<close>\<close>

text \<open>
  \<^verbatim>\<open>
  export function State<T>(initialValue: StateValue<T> = null): StateInstance<T> {
    const $state = createStore<StateValue<T>>(initialValue);
    const set = createEvent<StateValue<T>>("set");
    const update = createEvent<(prev: StateValue<T>) => StateValue<T>>("update");
    const reset = createEvent<void>("reset");
    $state
      .on(set, (_, payload) => payload)
      .on(update, (state, updater) => updater(state))
      .reset(reset);
    return { $state, get value() { return $state.getState(); }, set, update, reset,
      subscribe(fn) { return $state.watch(fn); } };
  }
  \<close>
  A default parameter takes its default when the argument is omitted or \<^verbatim>\<open>undefined\<close>,
  so \<^verbatim>\<open>createStore\<close> is never called with \<^verbatim>\<open>undefined\<close> here and does not raise (lemma
  \<open>State_created\<close> below); the branch of the exception is never taken. The cell is its
  store; the operations return the cell after the call.
\<close>

definition State :: "js_value \<Rightarrow> store" where
  "State arg =
     (let initialValue = (if arg = Undefined then Null else arg)
      in case createStore initialValue of
           Inr state \<Rightarrow> state
         | Inl exception \<Rightarrow> new_store initialValue)"

definition value_of :: "store \<Rightarrow> js_value" where
  "value_of c = getState c"

definition set_value :: "store \<Rightarrow> js_value \<Rightarrow> store" where
  "set_value c payload = store_update c payload"

definition update_value :: "store \<Rightarrow> (js_value \<Rightarrow> js_value) \<Rightarrow> store" where
  "update_value c updater = store_update c (updater (currentState c))"

definition reset_value :: "store \<Rightarrow> store" where
  "reset_value c = store_update c (defaultState c)"

definition subscribe :: "store \<Rightarrow> store \<times> nat" where
  "subscribe c = watch c"

definition unsubscribe :: "store \<Rightarrow> nat \<Rightarrow> store" where
  "unsubscribe c w = unwatch c w"

text \<open>A finite sequence of calls on one cell.\<close>

datatype cell_op =
    Set js_value
  | Update "js_value \<Rightarrow> js_value"
  | Reset
  | Subscribe
  | Unsubscribe nat

fun cell_step :: "store \<Rightarrow> cell_op \<Rightarrow> store" where
  "cell_step c (Set v) = set_value c v"
| "cell_step c (Update f) = update_value c f"
| "cell_step c Reset = reset_value c"
| "cell_step c Subscribe = fst (subscribe c)"
| "cell_step c (Unsubscribe w) = unsubscribe c w"

definition cell_run :: "store \<Rightarrow> cell_op list \<Rightarrow> store" where
  "cell_run c ops = foldl cell_step c ops"

text \<open>
  Whether a call makes the cell's store update (and so reach what is derived from
  it): the state a \<^verbatim>\<open>set\<close>, \<^verbatim>\<open>update\<close> or \<^verbatim>\<open>reset\<close> sends to the store passes the
  store's filter.
\<close>

fun cell_updates :: "store \<Rightarrow> cell_op \<Rightarrow> bool" where
  "cell_updates c (Set v) = accepts c v"
| "cell_updates c (Update f) = accepts c (f (currentState c))"
| "cell_updates c Reset = accepts c (defaultState c)"
| "cell_updates c Subscribe = False"
| "cell_updates c (Unsubscribe w) = False"

section \<open>Facts about cells\<close>

lemma strict_equal_same: "strict_equal x y \<Longrightarrow> x = y"
  by (simp add: strict_equal_def)

lemma store_update_defaultState [simp]:
  "defaultState (store_update s upd) = defaultState s"
  by (simp add: store_update_def)

lemma store_update_watchers [simp]:
  "watchers (store_update s upd) = watchers s"
  by (simp add: store_update_def)

lemma store_update_currentState:
  "currentState (store_update s upd) = (if upd = Undefined then currentState s else upd)"
  by (auto simp: store_update_def accepts_def strict_equal_def)

lemma store_update_Undefined [simp]: "store_update s Undefined = s"
  by (simp add: store_update_def accepts_def)

lemma cell_step_defaultState [simp]:
  "defaultState (cell_step c x) = defaultState c"
  by (cases x)
     (simp_all add: set_value_def update_value_def reset_value_def subscribe_def
        watch_def unsubscribe_def unwatch_def)

lemma cell_run_defaultState [simp]:
  "defaultState (cell_run c ops) = defaultState c"
  unfolding cell_run_def by (induction ops arbitrary: c) simp_all

lemma cell_step_same_state:
  "\<not> cell_updates c x \<Longrightarrow> currentState (cell_step c x) = currentState c"
  by (cases x)
     (simp_all add: set_value_def update_value_def reset_value_def subscribe_def
        watch_def unsubscribe_def unwatch_def store_update_def)

text \<open>The call of \<^verbatim>\<open>createStore\<close> in \<^verbatim>\<open>State\<close> succeeds, and the cell is the store it made.\<close>

lemma State_created:
  "createStore (if arg = Undefined then Null else arg) = Inr (State arg)"
  by (simp add: State_def createStore_def)

lemma State_new_store: "State arg = new_store (if arg = Undefined then Null else arg)"
  by (simp add: State_def createStore_def)

lemma State_defaultState:
  "defaultState (State arg) = (if arg = Undefined then Null else arg)"
  by (simp add: State_new_store new_store_def)

lemma State_value:
  "value_of (State arg) = (if arg = Undefined then Null else arg)"
  by (simp add: State_new_store new_store_def value_of_def getState_def)

lemma getState_State:
  "getState (State arg) = (if arg = Undefined then Null else arg)"
  by (simp add: State_new_store new_store_def getState_def)

lemma State_not_Undefined: "defaultState (State arg) \<noteq> Undefined"
  by (simp add: State_defaultState)

lemma reset_value_restores:
  "defaultState c \<noteq> Undefined \<Longrightarrow> value_of (reset_value c) = defaultState c"
  by (simp add: reset_value_def value_of_def getState_def store_update_currentState)

text \<open>
  C5. A cell created by \<^verbatim>\<open>State(v0)\<close>, after any finite sequence of \<^verbatim>\<open>set\<close>, \<^verbatim>\<open>update\<close>
  (and \<^verbatim>\<open>reset\<close>, \<^verbatim>\<open>subscribe\<close>, unsubscribe) calls, holds after \<^verbatim>\<open>reset()\<close> the value
  it was constructed with: the value \<^verbatim>\<open>State(v0).value\<close> of the fresh cell, which is the
  parameter \<^verbatim>\<open>initialValue\<close> (\<open>v0\<close>, and \<^verbatim>\<open>null\<close> when the argument is omitted).
\<close>

theorem reset_restores_initial_value:
  "value_of (reset_value (cell_run (State v0) ops)) = value_of (State v0)
   \<and> value_of (State v0) = (case v0 of Undefined \<Rightarrow> Null | _ \<Rightarrow> v0)"
proof -
  have "defaultState (cell_run (State v0) ops) \<noteq> Undefined"
    by (simp add: State_not_Undefined)
  then have "value_of (reset_value (cell_run (State v0) ops)) = defaultState (State v0)"
    using reset_value_restores [of "cell_run (State v0) ops"] by simp
  then show ?thesis
    by (simp add: State_value State_defaultState split: js_value.splits)
qed




lemma unsubscribe_idempotent: "unsubscribe (unsubscribe c w) w = unsubscribe c w"
  by (simp add: unsubscribe_def unwatch_def)





section \<open>The effect of the reactive engine\<close>

text \<open>
  \<^verbatim>\<open>createEffect(handler)\<close> gives a callable unit \<^verbatim>\<open>fx\<close>. Calling \<^verbatim>\<open>fx(params)\<close> starts
  \<^verbatim>\<open>handler(params)\<close> and returns a promise that settles as the handler's promise does.
  The engine counts the calls that have not settled (\<^verbatim>\<open>fx.inFlight\<close>); the store
  \<^verbatim>\<open>fx.pending\<close> is \<^verbatim>\<open>inFlight > 0\<close>, and, being a store, it updates (and runs its
  watchers) only when that boolean changes. When a call settles the engine fires
  \<^verbatim>\<open>fx.finally\<close>, lowers \<^verbatim>\<open>inFlight\<close>, and fires \<^verbatim>\<open>fx.doneData\<close> with the result or
  \<^verbatim>\<open>fx.failData\<close> with the rejection reason. Events call their watchers on every firing,
  whatever they carry.

  How a promise settles is an \<open>outcome\<close>. The result and the rejection reason are
  JavaScript values; either may be \<^verbatim>\<open>null\<close> or \<^verbatim>\<open>undefined\<close> (\<^verbatim>\<open>async () => {}\<close>,
  \<^verbatim>\<open>throw undefined\<close>). The argument of a handler in the model is all its run depends on:
  the parameters of the call and, for a handler that reads the outside world, what the
  world gives to that call.
\<close>

datatype outcome = Resolved js_value | Rejected js_value

record 'p effect =
  handler :: "'p \<Rightarrow> outcome"
  inFlight :: nat

definition createEffect :: "('p \<Rightarrow> outcome) \<Rightarrow> 'p effect" where
  "createEffect h = \<lparr>handler = h, inFlight = 0\<rparr>"

definition pending :: "'p effect \<Rightarrow> bool" where
  "pending e = (0 < inFlight e)"

section \<open>Async operation handle: \<^verbatim>\<open>src/async.ts\<close>\<close>

text \<open>
  \<^verbatim>\<open>
  export function asyncState<Params, Data>(
    handler: (params: Params) => Promise<Data>,
    initialData: StateValue<Data> = null,
  ): AsyncStateInstance<Data> {
    const fx = createEffect<Params, Data, Error>(handler);
    const data = State<Data>(initialData);
    const loading = State<boolean>(false);
    const error = State<Error | null>(null);
    fx.pending.watch((isLoading) => { loading.set(isLoading); });
    fx.doneData.watch((result) => { data.set(result); error.set(null); });
    fx.failData.watch((err) => { error.set(err); });
    return { data, loading, error, execute: fx,
      get isLoading() { return loading.value === true; },
      get hasError() { return error.value !== null; },
      get hasData() { return data.value !== null && data.value !== undefined; },
      reset() { data.set(initialData); loading.set(false); error.set(null); } };
  }
  \<close>
  The handle is the effect, the three cells and the captured \<^verbatim>\<open>initialData\<close>.
\<close>

record 'p async_handle =
  fx :: "'p effect"
  data :: store
  loading :: store
  error :: store
  initialData :: js_value

text \<open>The three watchers that wire the effect to the cells.\<close>

definition pending_watcher :: "'p async_handle \<Rightarrow> bool \<Rightarrow> 'p async_handle" where
  "pending_watcher h isLoading = h\<lparr>loading := set_value (loading h) (Boolean isLoading)\<rparr>"

definition doneData_watcher :: "'p async_handle \<Rightarrow> js_value \<Rightarrow> 'p async_handle" where
  "doneData_watcher h result =
     h\<lparr>data := set_value (data h) result, error := set_value (error h) Null\<rparr>"

definition failData_watcher :: "'p async_handle \<Rightarrow> js_value \<Rightarrow> 'p async_handle" where
  "failData_watcher h err = h\<lparr>error := set_value (error h) err\<rparr>"

text \<open>
  The watcher of the store \<^verbatim>\<open>fx.pending\<close> runs at once when it is attached, with the
  store's state \<^verbatim>\<open>false\<close>.
\<close>

definition asyncState :: "('p \<Rightarrow> outcome) \<Rightarrow> js_value \<Rightarrow> 'p async_handle" where
  "asyncState h arg =
     (let initialData = (if arg = Undefined then Null else arg);
          fx = createEffect h
      in pending_watcher
           \<lparr>fx = fx, data = State initialData, loading = State (Boolean False),
            error = State Null, initialData = initialData\<rparr>
           (pending fx))"

text \<open>
  \<^verbatim>\<open>execute(params)\<close> up to the point where the caller gets the promise: the call is
  counted, and \<^verbatim>\<open>fx.pending\<close> runs its watcher if it changed.
\<close>

definition execute_call :: "'p async_handle \<Rightarrow> 'p \<Rightarrow> 'p async_handle" where
  "execute_call h params =
     (let fx' = (fx h)\<lparr>inFlight := Suc (inFlight (fx h))\<rparr>;
          h' = h\<lparr>fx := fx'\<rparr>
      in if pending fx' \<noteq> pending (fx h) then pending_watcher h' (pending fx') else h')"

text \<open>
  The settlement of one call in flight, with the outcome of the handler's promise.
  The second component is how the promise that \<^verbatim>\<open>execute\<close> returned settles.
\<close>

definition execute_settle :: "'p async_handle \<Rightarrow> outcome \<Rightarrow> 'p async_handle \<times> outcome" where
  "execute_settle h out =
     (let fx' = (fx h)\<lparr>inFlight := inFlight (fx h) - 1\<rparr>;
          h' = h\<lparr>fx := fx'\<rparr>;
          h'' = (if pending fx' \<noteq> pending (fx h) then pending_watcher h' (pending fx')
                 else h')
      in (case out of
            Resolved result \<Rightarrow> doneData_watcher h'' result
          | Rejected err \<Rightarrow> failData_watcher h'' err,
          out))"

text \<open>One whole invocation, with nothing else happening before it settles.\<close>

definition execute :: "'p async_handle \<Rightarrow> 'p \<Rightarrow> 'p async_handle \<times> outcome" where
  "execute h params = execute_settle (execute_call h params) (handler (fx h) params)"

definition isLoading :: "'p async_handle \<Rightarrow> bool" where
  "isLoading h = strict_equal (value_of (loading h)) (Boolean True)"

definition hasError :: "'p async_handle \<Rightarrow> bool" where
  "hasError h = (\<not> strict_equal (value_of (error h)) Null)"

definition hasData :: "'p async_handle \<Rightarrow> bool" where
  "hasData h = (\<not> strict_equal (value_of (data h)) Null
                \<and> \<not> strict_equal (value_of (data h)) Undefined)"

definition reset_handle :: "'p async_handle \<Rightarrow> 'p async_handle" where
  "reset_handle h =
     h\<lparr>data := set_value (data h) (initialData h),
       loading := set_value (loading h) (Boolean False),
       error := set_value (error h) Null\<rparr>"

text \<open>
  \<^verbatim>\<open>
  export function mutationState<Params, Data>(handler) { return asyncState(handler); }
  \<close>
\<close>

definition mutationState :: "('p \<Rightarrow> outcome) \<Rightarrow> 'p async_handle" where
  "mutationState h = asyncState h Undefined"

section \<open>The HTTP specialization\<close>

text \<open>
  \<^verbatim>\<open>
  export function fetchState<T = unknown>(url: string, options: RequestInit = {}) {
    return asyncState(async () => {
      const response = await fetch(url, options);
      if (!response.ok) {
        throw new Error(`HTTP ${response.status}: ${response.statusText}`);
      }
      return response.json() as T;
    });
  }
  \<close>
  The handler takes no parameter and reads the outside world. What the world gives to
  one run of it is the platform's \<^verbatim>\<open>fetch\<close> at that moment (for a URL and options, a
  rejection reason or a response) and the reference that the next \<^verbatim>\<open>new\<close> object
  gets. Of a response the handler reads the status (an integer from 0 to 599), the
  status text, \<^verbatim>\<open>ok\<close>, which the platform defines as a status from 200 to 299, and
  \<^verbatim>\<open>json()\<close>, a promise of the parsed body, kept with the response as the way it
  settles (it rejects when the body is empty or is not JSON). A template literal writes
  an integer in decimal digits.
\<close>

record response =
  status :: nat
  statusText :: string
  json :: outcome

record 'o world =
  fetch :: "string \<Rightarrow> 'o \<Rightarrow> js_value + response"
  newObject :: nat

definition ok :: "response \<Rightarrow> bool" where
  "ok r = (200 \<le> status r \<and> status r \<le> 299)"

definition digit :: "nat \<Rightarrow> char" where
  "digit d = ''0123456789'' ! d"

fun number_string :: "nat \<Rightarrow> string" where
  "number_string n =
     (if n < 10 then [digit n] else number_string (n div 10) @ [digit (n mod 10)])"

declare number_string.simps [simp del]

definition fetch_handler :: "string \<Rightarrow> 'o \<Rightarrow> 'o world \<Rightarrow> outcome" where
  "fetch_handler url options w =
     (case fetch w url options of
        Inl reason \<Rightarrow> Rejected reason
      | Inr response \<Rightarrow>
          if \<not> ok response
          then Rejected (Error (newObject w)
                          (''HTTP '' @ number_string (status response) @ '': ''
                           @ statusText response))
          else json response)"

definition fetchState :: "string \<Rightarrow> 'o \<Rightarrow> 'o world async_handle" where
  "fetchState url options = asyncState (fetch_handler url options) Undefined"

text \<open>
  \<^verbatim>\<open>String.prototype.includes\<close>: the second string occurs in the first. The number a
  string of decimal digits denotes.
\<close>

fun starts_with :: "string \<Rightarrow> string \<Rightarrow> bool" where
  "starts_with s [] = True"
| "starts_with [] (c # cs) = False"
| "starts_with (x # xs) (c # cs) = (x = c \<and> starts_with xs cs)"

fun str_includes :: "string \<Rightarrow> string \<Rightarrow> bool" where
  "str_includes [] sub = (sub = [])"
| "str_includes (x # xs) sub = (starts_with (x # xs) sub \<or> str_includes xs sub)"

fun position :: "char \<Rightarrow> string \<Rightarrow> nat" where
  "position c [] = 0"
| "position c (x # xs) = (if x = c then 0 else Suc (position c xs))"

definition digit_value :: "char \<Rightarrow> nat" where
  "digit_value c = position c ''0123456789''"

definition decimal_value :: "string \<Rightarrow> nat" where
  "decimal_value s = foldl (\<lambda>n c. 10 * n + digit_value c) 0 s"

section \<open>The earlier async handle: \<^verbatim>\<open>main.ts\<close>\<close>

text \<open>
  \<^verbatim>\<open>main.ts\<close> holds the library as it was before it was split into \<^verbatim>\<open>src/\<close>. Its cells
  are built on the same store; its \<^verbatim>\<open>State\<close> has in addition
  \<^verbatim>\<open>
    hasValue() { const current = $state.getState();
                 return current !== null && current !== undefined; }
  \<close>
  and its \<^verbatim>\<open>asyncState\<close> wires the effect differently:
  \<^verbatim>\<open>
    const setLoadingTrue = createEvent();
    const setLoadingFalse = createEvent();
    setLoadingTrue.watch(() => loading.set(true));
    setLoadingFalse.watch(() => loading.set(false));
    fx.finally.watch(() => setLoadingFalse());
    fx.doneData.watch((result) => { setLoadingTrue(); data.set(result); error.set(null); });
    fx.failData.watch((err) => { error.set(err as StateValue<Fail | null>); });
    ...
    get hasError() { return error.hasValue(); },
    get hasData() { return data.hasValue(); },
  \<close>
  Nothing watches the call itself or \<^verbatim>\<open>fx.pending\<close>. On a settlement \<^verbatim>\<open>fx.finally\<close>
  fires first (\<^verbatim>\<open>doneData\<close> and \<^verbatim>\<open>failData\<close> are derived from it), so the write of
  \<^verbatim>\<open>false\<close> to \<^verbatim>\<open>loading\<close> comes before the writes of the \<^verbatim>\<open>doneData\<close> watcher.
\<close>

definition hasValue :: "store \<Rightarrow> bool" where
  "hasValue c =
     (let current = getState c
      in \<not> strict_equal current Null \<and> \<not> strict_equal current Undefined)"

definition main_asyncState :: "('p \<Rightarrow> outcome) \<Rightarrow> js_value \<Rightarrow> 'p async_handle" where
  "main_asyncState h arg =
     (let initialData = (if arg = Undefined then Null else arg)
      in \<lparr>fx = createEffect h, data = State initialData, loading = State (Boolean False),
          error = State Null, initialData = initialData\<rparr>)"

definition setLoadingTrue :: "'p async_handle \<Rightarrow> 'p async_handle" where
  "setLoadingTrue h = h\<lparr>loading := set_value (loading h) (Boolean True)\<rparr>"

definition setLoadingFalse :: "'p async_handle \<Rightarrow> 'p async_handle" where
  "setLoadingFalse h = h\<lparr>loading := set_value (loading h) (Boolean False)\<rparr>"

definition main_doneData_watcher :: "'p async_handle \<Rightarrow> js_value \<Rightarrow> 'p async_handle" where
  "main_doneData_watcher h result =
     (let h' = setLoadingTrue h
      in h'\<lparr>data := set_value (data h') result, error := set_value (error h') Null\<rparr>)"

definition main_execute_call :: "'p async_handle \<Rightarrow> 'p \<Rightarrow> 'p async_handle" where
  "main_execute_call h params = h\<lparr>fx := (fx h)\<lparr>inFlight := Suc (inFlight (fx h))\<rparr>\<rparr>"

definition main_execute_settle ::
  "'p async_handle \<Rightarrow> outcome \<Rightarrow> 'p async_handle \<times> outcome" where
  "main_execute_settle h out =
     (let h' = h\<lparr>fx := (fx h)\<lparr>inFlight := inFlight (fx h) - 1\<rparr>\<rparr>;
          h'' = setLoadingFalse h'
      in (case out of
            Resolved result \<Rightarrow> main_doneData_watcher h'' result
          | Rejected err \<Rightarrow> failData_watcher h'' err,
          out))"

definition main_execute :: "'p async_handle \<Rightarrow> 'p \<Rightarrow> 'p async_handle \<times> outcome" where
  "main_execute h params =
     main_execute_settle (main_execute_call h params) (handler (fx h) params)"

definition main_hasError :: "'p async_handle \<Rightarrow> bool" where
  "main_hasError h = hasValue (error h)"

definition main_hasData :: "'p async_handle \<Rightarrow> bool" where
  "main_hasData h = hasValue (data h)"

section \<open>Sequences of calls on a handle\<close>

text \<open>
  What a holder of a handle of \<^verbatim>\<open>src/async.ts\<close> can do with it, in any order: call
  \<^verbatim>\<open>execute\<close>, see a call in flight settle, call \<^verbatim>\<open>reset\<close>, and use the three cells,
  which the handle exposes. Nothing settles when no call is in flight.
\<close>

datatype 'p handle_op =
    Execute 'p
  | Settle outcome
  | ResetAll
  | OnData cell_op
  | OnLoading cell_op
  | OnError cell_op

fun handle_step :: "'p async_handle \<Rightarrow> 'p handle_op \<Rightarrow> 'p async_handle" where
  "handle_step h (Execute p) = execute_call h p"
| "handle_step h (Settle out) =
     (if inFlight (fx h) = 0 then h else fst (execute_settle h out))"
| "handle_step h ResetAll = reset_handle h"
| "handle_step h (OnData x) = h\<lparr>data := cell_step (data h) x\<rparr>"
| "handle_step h (OnLoading x) = h\<lparr>loading := cell_step (loading h) x\<rparr>"
| "handle_step h (OnError x) = h\<lparr>error := cell_step (error h) x\<rparr>"

definition handle_run :: "'p async_handle \<Rightarrow> 'p handle_op list \<Rightarrow> 'p async_handle" where
  "handle_run h ops = foldl handle_step h ops"

text \<open>What can be read from a handle.\<close>

definition observe ::
  "'p async_handle \<Rightarrow> js_value \<times> js_value \<times> js_value \<times> bool \<times> bool \<times> bool" where
  "observe h =
     (value_of (data h), value_of (loading h), value_of (error h),
      isLoading h, hasError h, hasData h)"

section \<open>Facts about handles\<close>

lemma value_of_set_value:
  "value_of (set_value c v) = (if v = Undefined then value_of c else v)"
  by (simp add: set_value_def value_of_def getState_def store_update_currentState)

lemma set_value_Undefined [simp]: "set_value c Undefined = c"
  by (simp add: set_value_def)

lemma isLoading_iff: "isLoading h = (value_of (loading h) = Boolean True)"
  by (auto simp: isLoading_def strict_equal_def)

lemma hasError_iff: "hasError h = (value_of (error h) \<noteq> Null)"
  by (auto simp: hasError_def strict_equal_def)

lemma hasData_iff:
  "hasData h = (value_of (data h) \<noteq> Null \<and> value_of (data h) \<noteq> Undefined)"
  by (auto simp: hasData_def strict_equal_def)

lemma hasValue_iff: "hasValue c = (value_of c \<noteq> Null \<and> value_of c \<noteq> Undefined)"
  by (auto simp: hasValue_def Let_def strict_equal_def value_of_def)

lemma settle_fields:
  "data (pending_watcher h b) = data h"
  "error (pending_watcher h b) = error h"
  "loading (pending_watcher h b) = set_value (loading h) (Boolean b)"
  "data (failData_watcher h e) = data h"
  "loading (failData_watcher h e) = loading h"
  "error (failData_watcher h e) = set_value (error h) e"
  "data (doneData_watcher h v) = set_value (data h) v"
  "loading (doneData_watcher h v) = loading h"
  "error (doneData_watcher h v) = set_value (error h) Null"
  by (simp_all add: pending_watcher_def failData_watcher_def doneData_watcher_def)

lemma execute_settle_Resolved:
  "data (fst (execute_settle h (Resolved v))) = set_value (data h) v"
  "error (fst (execute_settle h (Resolved v))) = set_value (error h) Null"
  "loading (fst (execute_settle h (Resolved v))) =
     (if inFlight (fx h) = 1 then set_value (loading h) (Boolean False) else loading h)"
  "snd (execute_settle h out) = out"
  by (auto simp: execute_settle_def Let_def settle_fields pending_def)

lemma execute_settle_Rejected:
  "data (fst (execute_settle h (Rejected r))) = data h"
  "error (fst (execute_settle h (Rejected r))) = set_value (error h) r"
  "loading (fst (execute_settle h (Rejected r))) =
     (if inFlight (fx h) = 1 then set_value (loading h) (Boolean False) else loading h)"
  by (auto simp: execute_settle_def Let_def settle_fields pending_def)

lemma execute_settle_static:
  "handler (fx (fst (execute_settle h out))) = handler (fx h)"
  "inFlight (fx (fst (execute_settle h out))) = inFlight (fx h) - 1"
  "initialData (fst (execute_settle h out)) = initialData h"
  by (cases out;
      simp add: execute_settle_def Let_def pending_watcher_def doneData_watcher_def
        failData_watcher_def)+

lemma execute_call_fields:
  "data (execute_call h p) = data h"
  "error (execute_call h p) = error h"
  "loading (execute_call h p) =
     (if inFlight (fx h) = 0 then set_value (loading h) (Boolean True) else loading h)"
  "inFlight (fx (execute_call h p)) = Suc (inFlight (fx h))"
  "handler (fx (execute_call h p)) = handler (fx h)"
  "initialData (execute_call h p) = initialData h"
  by (auto simp: execute_call_def Let_def settle_fields pending_def pending_watcher_def)

lemma asyncState_fields:
  "data (asyncState H a) = State a"
  "loading (asyncState H a) = State (Boolean False)"
  "error (asyncState H a) = State Null"
  "initialData (asyncState H a) = (if a = Undefined then Null else a)"
  "inFlight (fx (asyncState H a)) = 0"
  "handler (fx (asyncState H a)) = H"
  by (simp_all add: asyncState_def Let_def pending_watcher_def createEffect_def pending_def
        State_new_store new_store_def set_value_def store_update_def accepts_def
        strict_equal_def)

lemma main_asyncState_fields:
  "data (main_asyncState H a) = State a"
  "loading (main_asyncState H a) = State (Boolean False)"
  "error (main_asyncState H a) = State Null"
  "initialData (main_asyncState H a) = (if a = Undefined then Null else a)"
  "inFlight (fx (main_asyncState H a)) = 0"
  "handler (fx (main_asyncState H a)) = H"
  by (simp_all add: main_asyncState_def Let_def createEffect_def State_new_store)

lemma main_execute_settle_Resolved:
  "data (fst (main_execute_settle h (Resolved v))) = set_value (data h) v"
  "error (fst (main_execute_settle h (Resolved v))) = set_value (error h) Null"
  "loading (fst (main_execute_settle h (Resolved v))) =
     set_value (set_value (loading h) (Boolean False)) (Boolean True)"
  "snd (main_execute_settle h out) = out"
  by (simp_all add: main_execute_settle_def Let_def main_doneData_watcher_def
        setLoadingTrue_def setLoadingFalse_def)



section \<open>Construction\<close>

text \<open>
  C10. Right after \<^verbatim>\<open>asyncState(handler, initialData)\<close>, before any \<^verbatim>\<open>execute\<close>: the data
  cell holds \<^verbatim>\<open>initialData\<close> (\<^verbatim>\<open>null\<close> when the argument is omitted, as in
  \<^verbatim>\<open>fetchState\<close> and \<^verbatim>\<open>mutationState\<close>), the loading cell holds \<^verbatim>\<open>false\<close>, the error
  cell holds \<^verbatim>\<open>null\<close>, and \<^verbatim>\<open>isLoading\<close> and \<^verbatim>\<open>hasError\<close> are false. The same holds of
  \<^verbatim>\<open>main.ts\<close>.
\<close>

theorem asyncState_initial_cells:
  "value_of (data (asyncState H a)) = (case a of Undefined \<Rightarrow> Null | _ \<Rightarrow> a)
   \<and> value_of (loading (asyncState H a)) = Boolean False
   \<and> value_of (error (asyncState H a)) = Null
   \<and> isLoading (asyncState H a) = False
   \<and> hasError (asyncState H a) = False
   \<and> value_of (data (mutationState H)) = Null
   \<and> value_of (data (fetchState url options)) = Null
   \<and> value_of (data (main_asyncState H a)) = (case a of Undefined \<Rightarrow> Null | _ \<Rightarrow> a)
   \<and> value_of (loading (main_asyncState H a)) = Boolean False
   \<and> value_of (error (main_asyncState H a)) = Null
   \<and> main_hasError (main_asyncState H a) = False"
  by (simp add: asyncState_fields main_asyncState_fields State_value isLoading_iff
        hasError_iff main_hasError_def hasValue_iff mutationState_def fetchState_def
        split: js_value.splits)

section \<open>Settlement with a result\<close>

text \<open>
  C1 as stated fails in two ways on \<^verbatim>\<open>src/async.ts\<close>.
  \<^item> A handler that resolves with \<^verbatim>\<open>undefined\<close>: the store of the data cell drops the
    write, and the cell keeps what it held (here the initial 5).
  \<^item> Two calls in flight: when the first of them settles, \<^verbatim>\<open>fx.pending\<close> is still
    \<^verbatim>\<open>true\<close>, its watcher does not run, and the loading cell still holds \<^verbatim>\<open>true\<close>.
\<close>

theorem execute_success_counterexample:
  "value_of (data (fst (execute (asyncState (\<lambda>u::unit. Resolved Undefined) (Number 5)) ())))
     = Number 5
   \<and> value_of (loading (fst (execute_settle
        (execute_call
          (execute_call (asyncState (\<lambda>n::int. Resolved (Number (n * 2))) Undefined) 1)
          21)
        (Resolved (Number 2)))))
     = Boolean True"
  by (simp add: execute_def execute_settle_Resolved execute_call_fields asyncState_fields
        value_of_set_value State_value)

text \<open>
  C1, amended. For a handle of \<^verbatim>\<open>src/async.ts\<close> and a call of \<^verbatim>\<open>execute\<close> whose handler
  resolves with \<open>v\<close>: after the settlement the error cell holds \<^verbatim>\<open>null\<close> and the
  returned promise resolves with \<open>v\<close>; the data cell holds \<open>v\<close> when \<open>v\<close> is not
  \<^verbatim>\<open>undefined\<close>, and is left exactly as it was when \<open>v\<close> is \<^verbatim>\<open>undefined\<close>; the loading
  cell holds \<^verbatim>\<open>false\<close> when the call was the only one in flight, and is left exactly as
  it was when another call is still in flight. The data and error cells of a handle of
  \<^verbatim>\<open>main.ts\<close> hold the same values.
\<close>

theorem execute_success_cells:
  "value_of (data (fst (execute_settle h (Resolved v)))) =
     (if v = Undefined then value_of (data h) else v)
   \<and> (v = Undefined \<longrightarrow> data (fst (execute_settle h (Resolved v))) = data h)
   \<and> value_of (error (fst (execute_settle h (Resolved v)))) = Null
   \<and> snd (execute_settle h (Resolved v)) = Resolved v
   \<and> (inFlight (fx h) = 1 \<longrightarrow>
        value_of (loading (fst (execute_settle h (Resolved v)))) = Boolean False
        \<and> \<not> isLoading (fst (execute_settle h (Resolved v))))
   \<and> (1 < inFlight (fx h) \<longrightarrow> loading (fst (execute_settle h (Resolved v))) = loading h)
   \<and> value_of (data (fst (main_execute_settle h (Resolved v)))) =
       (if v = Undefined then value_of (data h) else v)
   \<and> value_of (error (fst (main_execute_settle h (Resolved v)))) = Null"
  by (simp add: execute_settle_Resolved main_execute_settle_Resolved value_of_set_value
        isLoading_iff)

text \<open>
  The scenario of the specification, \<^verbatim>\<open>asyncState(async (n) => n * 2)\<close> with
  \<^verbatim>\<open>execute(21)\<close> awaited; a settlement while a second call is in flight; and a result
  of \<^verbatim>\<open>undefined\<close> on a handle whose data cell holds 5.
\<close>

theorem execute_success_cells_witness:
  "inFlight (fx (execute_call (asyncState (\<lambda>n::int. Resolved (Number (n * 2))) Undefined) 21))
     = 1
   \<and> value_of (data (fst (execute
        (asyncState (\<lambda>n::int. Resolved (Number (n * 2))) Undefined) 21))) = Number 42
   \<and> value_of (error (fst (execute
        (asyncState (\<lambda>n::int. Resolved (Number (n * 2))) Undefined) 21))) = Null
   \<and> value_of (loading (fst (execute
        (asyncState (\<lambda>n::int. Resolved (Number (n * 2))) Undefined) 21))) = Boolean False
   \<and> 1 < inFlight (fx (execute_call (execute_call
        (asyncState (\<lambda>n::int. Resolved (Number (n * 2))) Undefined) 1) 21))
   \<and> loading (fst (execute_settle
        (execute_call (execute_call
          (asyncState (\<lambda>n::int. Resolved (Number (n * 2))) Undefined) 1) 21)
        (Resolved (Number 2))))
     = loading (execute_call (execute_call
          (asyncState (\<lambda>n::int. Resolved (Number (n * 2))) Undefined) 1) 21)
   \<and> data (fst (execute_settle
        (execute_call (asyncState (\<lambda>u::unit. Resolved Undefined) (Number 5)) ())
        (Resolved Undefined)))
     = data (execute_call (asyncState (\<lambda>u::unit. Resolved Undefined) (Number 5)) ())"
proof -
  let ?H = "\<lambda>n::int. Resolved (Number (n * 2))"
  let ?h = "execute_call (asyncState ?H Undefined) 21"
  let ?k = "execute_call (execute_call (asyncState ?H Undefined) 1) 21"
  let ?u = "execute_call (asyncState (\<lambda>u::unit. Resolved Undefined) (Number 5)) ()"
  have one: "inFlight (fx ?h) = 1"
    by (simp add: execute_call_fields asyncState_fields)
  have two: "1 < inFlight (fx ?k)"
    by (simp add: execute_call_fields asyncState_fields)
  have run: "execute (asyncState ?H Undefined) 21 = execute_settle ?h (Resolved (Number 42))"
    by (simp add: execute_def asyncState_fields)
  from execute_success_cells [of ?h "Number 42"] one
  have first: "value_of (data (fst (execute_settle ?h (Resolved (Number 42))))) = Number 42
      \<and> value_of (error (fst (execute_settle ?h (Resolved (Number 42))))) = Null
      \<and> value_of (loading (fst (execute_settle ?h (Resolved (Number 42))))) = Boolean False"
    by simp
  from execute_success_cells [of ?k "Number 2"] two
  have second: "loading (fst (execute_settle ?k (Resolved (Number 2)))) = loading ?k"
    by blast
  from execute_success_cells [of ?u Undefined]
  have third: "data (fst (execute_settle ?u (Resolved Undefined))) = data ?u"
    by blast
  from one two run first second third show ?thesis by simp
qed

text \<open>
  In \<^verbatim>\<open>main.ts\<close> the \<^verbatim>\<open>doneData\<close> watcher calls \<^verbatim>\<open>setLoadingTrue()\<close>: after every
  settlement with a result the loading cell of such a handle holds \<^verbatim>\<open>true\<close>.
\<close>

lemma main_execute_success_loading:
  "value_of (loading (fst (main_execute_settle h (Resolved v)))) = Boolean True"
  by (simp add: main_execute_settle_Resolved value_of_set_value)

section \<open>Settlement with a failure\<close>




section \<open>The start of an invocation\<close>







text \<open>
  In \<^verbatim>\<open>main.ts\<close> the start of a call writes no cell (\<^verbatim>\<open>setLoadingTrue\<close> is called by the
  \<^verbatim>\<open>doneData\<close> watcher only): right after \<^verbatim>\<open>execute(21)\<close> on a fresh handle
  \<^verbatim>\<open>isLoading\<close> is false, where the usage notes at the end of \<^verbatim>\<open>main.ts\<close> say
  \<^verbatim>\<open>userApi.execute(123); console.log(userApi.isLoading) // true\<close>.
\<close>

lemma main_execute_call_loading:
  "loading (main_execute_call h p) = loading h
   \<and> \<not> isLoading (main_execute_call (main_asyncState H a) p)"
  by (simp add: main_execute_call_def main_asyncState_fields isLoading_iff State_value)


section \<open>The derived booleans\<close>

lemma cell_step_not_Undefined:
  "currentState c \<noteq> Undefined \<Longrightarrow> currentState (cell_step c x) \<noteq> Undefined"
  by (cases x)
     (simp_all add: set_value_def update_value_def reset_value_def subscribe_def watch_def
        unsubscribe_def unwatch_def store_update_currentState)

lemma set_value_not_Undefined:
  "currentState c \<noteq> Undefined \<Longrightarrow> currentState (set_value c v) \<noteq> Undefined"
  by (simp add: set_value_def store_update_currentState)

lemma handle_step_not_Undefined:
  assumes "currentState (error h) \<noteq> Undefined" and "currentState (data h) \<noteq> Undefined"
  shows "currentState (error (handle_step h x)) \<noteq> Undefined
         \<and> currentState (data (handle_step h x)) \<noteq> Undefined"
proof (cases x)
  case (Settle out)
  with assms show ?thesis
    by (cases out)
       (simp_all add: execute_settle_Resolved execute_settle_Rejected set_value_not_Undefined)
qed (use assms in \<open>simp_all add: execute_call_fields reset_handle_def set_value_not_Undefined
       cell_step_not_Undefined\<close>)

lemma handle_run_not_Undefined:
  "currentState (error h) \<noteq> Undefined \<Longrightarrow> currentState (data h) \<noteq> Undefined \<Longrightarrow>
   currentState (error (handle_run h ops)) \<noteq> Undefined
   \<and> currentState (data (handle_run h ops)) \<noteq> Undefined"
  unfolding handle_run_def
proof (induction ops arbitrary: h)
  case Nil
  then show ?case by simp
next
  case (Cons x xs)
  from handle_step_not_Undefined [OF Cons.prems]
  show ?case using Cons.IH [of "handle_step h x"] by simp
qed

text \<open>
  Neither the error cell nor the data cell of a handle built by \<^verbatim>\<open>asyncState\<close> ever
  holds \<^verbatim>\<open>undefined\<close>, whatever is done with the handle: the cells start at a value that
  is not \<^verbatim>\<open>undefined\<close> and their stores drop a write of \<^verbatim>\<open>undefined\<close>.
\<close>

lemma asyncState_not_Undefined:
  "value_of (error (handle_run (asyncState H a) ops)) \<noteq> Undefined
   \<and> value_of (data (handle_run (asyncState H a) ops)) \<noteq> Undefined"
proof -
  have "currentState (error (asyncState H a)) \<noteq> Undefined"
    "currentState (data (asyncState H a)) \<noteq> Undefined"
    by (simp_all add: asyncState_fields State_new_store new_store_def)
  from handle_run_not_Undefined [OF this] show ?thesis
    by (simp add: value_of_def getState_def)
qed

text \<open>
  C8. For every handle built by \<^verbatim>\<open>asyncState\<close>, after any sequence of calls on it
  (\<^verbatim>\<open>execute\<close>, settlements with any result or reason, \<^verbatim>\<open>reset\<close>, calls on its three
  cells): \<^verbatim>\<open>hasError\<close> is true if and only if the error cell's value is neither \<^verbatim>\<open>null\<close>
  nor \<^verbatim>\<open>undefined\<close>, and \<^verbatim>\<open>hasData\<close> is true if and only if the data cell's value is
  neither \<^verbatim>\<open>null\<close> nor \<^verbatim>\<open>undefined\<close>. The getter of \<^verbatim>\<open>src/async.ts\<close> tests the error
  against \<^verbatim>\<open>null\<close> only; the error cell of such a handle never holds \<^verbatim>\<open>undefined\<close>, so
  the case in which the two tests would differ does not arise. The getters of
  \<^verbatim>\<open>main.ts\<close> test both markers, on any handle.
\<close>

theorem derived_booleans:
  "hasError (handle_run (asyncState H a) ops) =
     (value_of (error (handle_run (asyncState H a) ops)) \<noteq> Null
      \<and> value_of (error (handle_run (asyncState H a) ops)) \<noteq> Undefined)
   \<and> hasData (handle_run (asyncState H a) ops) =
     (value_of (data (handle_run (asyncState H a) ops)) \<noteq> Null
      \<and> value_of (data (handle_run (asyncState H a) ops)) \<noteq> Undefined)
   \<and> value_of (error (handle_run (asyncState H a) ops)) \<noteq> Undefined
   \<and> main_hasError h = (value_of (error h) \<noteq> Null \<and> value_of (error h) \<noteq> Undefined)
   \<and> main_hasData h = (value_of (data h) \<noteq> Null \<and> value_of (data h) \<noteq> Undefined)"
  using asyncState_not_Undefined [of H a ops]
  by (simp add: hasError_iff hasData_iff main_hasError_def main_hasData_def hasValue_iff)

text \<open>
  After a failure and after a later success, read through the getters and through the
  cells.
\<close>

lemma derived_booleans_example:
  "hasError (handle_run (asyncState (\<lambda>u::unit. Resolved (Number 1)) Undefined)
      [Execute (), Settle (Rejected (Error 1 ''boom''))])
   \<and> \<not> hasData (handle_run (asyncState (\<lambda>u::unit. Resolved (Number 1)) Undefined)
      [Execute (), Settle (Rejected (Error 1 ''boom''))])
   \<and> \<not> hasError (handle_run (asyncState (\<lambda>u::unit. Resolved (Number 1)) Undefined)
      [Execute (), Settle (Rejected (Error 1 ''boom'')), Execute (), Settle (Resolved (Number 1))])
   \<and> hasData (handle_run (asyncState (\<lambda>u::unit. Resolved (Number 1)) Undefined)
      [Execute (), Settle (Rejected (Error 1 ''boom'')), Execute (), Settle (Resolved (Number 1))])
   \<and> \<not> hasError (handle_run (asyncState (\<lambda>u::unit. Resolved (Number 1)) Undefined)
      [Execute (), Settle (Rejected Undefined), OnError (Set Undefined)])"
  by (simp add: handle_run_def hasError_iff hasData_iff execute_settle_Rejected
        execute_settle_Resolved execute_settle_static execute_call_fields asyncState_fields
        value_of_set_value State_value)

section \<open>The mutation specialization\<close>

text \<open>
  C9. \<^verbatim>\<open>mutationState(h)\<close> is the handle \<^verbatim>\<open>asyncState(h)\<close> with the default initial data
  (\<^verbatim>\<open>null\<close>): the two are the same handle, so every sequence of calls takes them to the
  same handle, with the same readings of \<^verbatim>\<open>data\<close>, \<^verbatim>\<open>loading\<close>, \<^verbatim>\<open>error\<close> and the derived
  booleans, and a whole invocation settles the same way.
\<close>

theorem mutationState_is_asyncState:
  "mutationState H = asyncState H Undefined
   \<and> mutationState H = asyncState H Null
   \<and> handle_run (mutationState H) ops = handle_run (asyncState H Null) ops
   \<and> observe (handle_run (mutationState H) ops) = observe (handle_run (asyncState H Null) ops)
   \<and> execute (mutationState H) p = execute (asyncState H Null) p
   \<and> reset_handle (mutationState H) = reset_handle (asyncState H Null)"
proof -
  have "mutationState H = asyncState H Null"
    by (simp add: mutationState_def asyncState_def)
  then show ?thesis by (simp add: mutationState_def)
qed


section \<open>Facts about the HTTP specialization\<close>

lemma starts_with_append: "starts_with (sub @ rest) sub"
  by (induction sub) simp_all

lemma includes_here: "str_includes (sub @ rest) sub"
  by (cases "sub @ rest") (simp, metis str_includes.simps(2) starts_with_append)

lemma includes_append: "str_includes (before @ sub @ rest) sub"
proof (induction before)
  case Nil
  show ?case by (simp add: includes_here)
next
  case (Cons x xs)
  then show ?case by simp
qed

lemma includes_suffix: "str_includes (before @ sub) sub"
  using includes_append [of before sub "[]"] by simp

text \<open>\<open>str_includes\<close> is containment: the second string lies somewhere inside the first.\<close>

lemma starts_with_prefix: "starts_with s sub \<Longrightarrow> \<exists>rest. s = sub @ rest"
  by (induction s sub rule: starts_with.induct) simp_all

lemma str_includes_inside: "str_includes s sub \<Longrightarrow> \<exists>before rest. s = before @ sub @ rest"
proof (induction s)
  case Nil
  then show ?case by simp
next
  case (Cons x xs)
  show ?case
  proof (cases "starts_with (x # xs) sub")
    case True
    then obtain rest where "x # xs = sub @ rest"
      using starts_with_prefix by blast
    then have "x # xs = [] @ sub @ rest" by simp
    then show ?thesis by blast
  next
    case False
    with Cons.prems have "str_includes xs sub" by simp
    then obtain before rest where "xs = before @ sub @ rest"
      using Cons.IH by blast
    then have "x # xs = (x # before) @ sub @ rest" by simp
    then show ?thesis by blast
  qed
qed

lemma str_includes_iff: "str_includes s sub = (\<exists>before rest. s = before @ sub @ rest)"
  using str_includes_inside [of s sub] includes_append by blast

text \<open>\<open>number_string\<close> writes a number in decimal: reading the digits gives it back.\<close>

lemma digit_value_digit: "d < 10 \<Longrightarrow> digit_value (digit d) = d"
proof -
  assume "d < 10"
  then have "d = 0 \<or> d = 1 \<or> d = 2 \<or> d = 3 \<or> d = 4 \<or> d = 5 \<or> d = 6
             \<or> d = 7 \<or> d = 8 \<or> d = 9"
    by arith
  then show ?thesis
    by (elim disjE) (simp_all add: digit_def digit_value_def)
qed

lemma decimal_value_snoc:
  "decimal_value (s @ [c]) = 10 * decimal_value s + digit_value c"
  by (simp add: decimal_value_def)

lemma decimal_value_number_string: "decimal_value (number_string n) = n"
proof (induction n rule: number_string.induct)
  case (1 n)
  show ?case
  proof (cases "n < 10")
    case True
    then show ?thesis
      by (simp add: number_string.simps [of n] decimal_value_def digit_value_digit)
  next
    case False
    with "1" have "decimal_value (number_string (n div 10)) = n div 10" by simp
    with False show ?thesis
      by (simp add: number_string.simps [of n] decimal_value_snoc digit_value_digit)
  qed
qed

lemma number_string_not_empty: "number_string n \<noteq> []"
  by (simp add: number_string.simps [of n])

lemma digit_is_digit: "d < 10 \<Longrightarrow> digit d \<in> set ''0123456789''"
proof -
  assume "d < 10"
  then have "d = 0 \<or> d = 1 \<or> d = 2 \<or> d = 3 \<or> d = 4 \<or> d = 5 \<or> d = 6
             \<or> d = 7 \<or> d = 8 \<or> d = 9"
    by arith
  then show ?thesis
    by (elim disjE) (simp_all add: digit_def)
qed

lemma digit_zero: "d < 10 \<Longrightarrow> (digit d = CHR ''0'') = (d = 0)"
proof -
  assume "d < 10"
  then have "d = 0 \<or> d = 1 \<or> d = 2 \<or> d = 3 \<or> d = 4 \<or> d = 5 \<or> d = 6
             \<or> d = 7 \<or> d = 8 \<or> d = 9"
    by arith
  then show ?thesis
    by (elim disjE) (simp_all add: digit_def)
qed

text \<open>
  It writes digits only, and no zero in front: it is the decimal numeral of the number,
  as \<^verbatim>\<open>String(n)\<close> is for an integer status.
\<close>

lemma number_string_digits: "list_all (\<lambda>c. c \<in> set ''0123456789'') (number_string n)"
proof (induction n rule: number_string.induct)
  case (1 n)
  show ?case
  proof (cases "n < 10")
    case True
    then show ?thesis
      using digit_is_digit [of n] by (simp add: number_string.simps [of n])
  next
    case False
    with "1" have "list_all (\<lambda>c. c \<in> set ''0123456789'') (number_string (n div 10))"
      by simp
    with False show ?thesis
      using digit_is_digit [of "n mod 10"] by (simp add: number_string.simps [of n])
  qed
qed

lemma number_string_leading: "(hd (number_string n) = CHR ''0'') = (n = 0)"
proof (induction n rule: number_string.induct)
  case (1 n)
  show ?case
  proof (cases "n < 10")
    case True
    then show ?thesis
      using digit_zero [of n] by (simp add: number_string.simps [of n])
  next
    case False
    with "1" have "(hd (number_string (n div 10)) = CHR ''0'') = (n div 10 = 0)"
      by simp
    moreover from False have "n div 10 \<noteq> 0" "n \<noteq> 0" by simp_all
    ultimately show ?thesis
      using False number_string_not_empty [of "n div 10"]
      by (simp add: number_string.simps [of n])
  qed
qed

lemma number_string_404: "number_string 404 = ''404''"
  by (simp add: number_string.simps [of 404] number_string.simps [of 40]
        number_string.simps [of 4] digit_def)

lemma handle_step_handler: "handler (fx (handle_step h x)) = handler (fx h)"
  by (cases x) (simp_all add: execute_call_fields execute_settle_static reset_handle_def)

lemma handle_run_handler: "handler (fx (handle_run h ops)) = handler (fx h)"
  unfolding handle_run_def
  by (induction ops arbitrary: h) (simp_all add: handle_step_handler)

lemma fetchState_handler:
  "handler (fx (handle_run (fetchState url options) ops)) = fetch_handler url options"
  by (simp add: handle_run_handler fetchState_def asyncState_fields)

lemma execute_as_settle:
  "fst (execute h p) = fst (execute_settle (execute_call h p) (handler (fx h) p))"
  "snd (execute h p) = handler (fx h) p"
  by (simp_all add: execute_def execute_settle_Resolved)

text \<open>
  C7 as stated fails in its last part: a response with a status from 200 to 299 whose
  body is empty or is not JSON. The endpoint answers \<^verbatim>\<open>204 No Content\<close>;
  \<^verbatim>\<open>response.json()\<close> rejects with a \<^verbatim>\<open>SyntaxError\<close>, and so does the promise that
  \<^verbatim>\<open>execute\<close> returned; the error cell holds the syntax error and the data cell is still
  \<^verbatim>\<open>null\<close>.
\<close>

theorem fetchState_2xx_counterexample:
  "ok \<lparr>status = 204, statusText = ''No Content'',
        json = Rejected (Error 8 ''Unexpected end of JSON input'')\<rparr>
   \<and> snd (execute (fetchState ''/api/users/1'' ())
        \<lparr>fetch = (\<lambda>u (o'::unit). Inr \<lparr>status = 204, statusText = ''No Content'',
            json = Rejected (Error 8 ''Unexpected end of JSON input'')\<rparr>),
         newObject = 9\<rparr>)
     = Rejected (Error 8 ''Unexpected end of JSON input'')
   \<and> value_of (error (fst (execute (fetchState ''/api/users/1'' ())
        \<lparr>fetch = (\<lambda>u (o'::unit). Inr \<lparr>status = 204, statusText = ''No Content'',
            json = Rejected (Error 8 ''Unexpected end of JSON input'')\<rparr>),
         newObject = 9\<rparr>)))
     = Error 8 ''Unexpected end of JSON input''
   \<and> value_of (data (fst (execute (fetchState ''/api/users/1'' ())
        \<lparr>fetch = (\<lambda>u (o'::unit). Inr \<lparr>status = 204, statusText = ''No Content'',
            json = Rejected (Error 8 ''Unexpected end of JSON input'')\<rparr>),
         newObject = 9\<rparr>)))
     = Null"
  by (simp add: execute_def execute_settle_Rejected execute_settle_Resolved
        execute_call_fields fetchState_def asyncState_fields fetch_handler_def ok_def
        value_of_set_value State_value)

text \<open>
  C7, amended. For a handle of \<^verbatim>\<open>fetchState\<close>, in whatever state, and a call of
  \<^verbatim>\<open>execute\<close>. When the response has a status outside 200..299, the returned promise
  rejects with a new \<^verbatim>\<open>Error\<close> whose message is \<^verbatim>\<open>HTTP <status>: <statusText>\<close>, with
  the status written in decimal (digits only, no zero in front), so the message includes
  the decimal status and the status text; after the settlement the error cell holds
  that error and the data cell is as it was. When \<^verbatim>\<open>fetch\<close> itself rejects, the promise
  rejects with its reason. When the status is in 200..299, the promise settles as
  \<^verbatim>\<open>response.json()\<close> does: if the body parses, the promise resolves with the parsed
  body, which the data cell then holds (a parsed body is not \<^verbatim>\<open>undefined\<close>), and the
  error cell holds \<^verbatim>\<open>null\<close>; if it does not parse, the promise rejects with the reason
  \<^verbatim>\<open>json()\<close> gave, which the error cell then holds (a reason other than \<^verbatim>\<open>undefined\<close>),
  and the data cell is as it was.
\<close>

theorem fetchState_status_mapping:
  "(fetch w url options = Inr response \<and> \<not> (200 \<le> status response \<and> status response \<le> 299)
      \<longrightarrow>
      snd (execute (handle_run (fetchState url options) ops) w)
        = Rejected (Error (newObject w)
            (''HTTP '' @ number_string (status response) @ '': '' @ statusText response))
      \<and> value_of (error (fst (execute (handle_run (fetchState url options) ops) w)))
        = Error (newObject w)
            (''HTTP '' @ number_string (status response) @ '': '' @ statusText response)
      \<and> data (fst (execute (handle_run (fetchState url options) ops) w))
        = data (handle_run (fetchState url options) ops)
      \<and> str_includes
           (''HTTP '' @ number_string (status response) @ '': '' @ statusText response)
           (number_string (status response))
      \<and> str_includes
           (''HTTP '' @ number_string (status response) @ '': '' @ statusText response)
           (statusText response)
      \<and> (\<exists>before rest.
            ''HTTP '' @ number_string (status response) @ '': '' @ statusText response
              = before @ number_string (status response) @ rest)
      \<and> (\<exists>before rest.
            ''HTTP '' @ number_string (status response) @ '': '' @ statusText response
              = before @ statusText response @ rest))
   \<and> decimal_value (number_string (status response)) = status response
   \<and> list_all (\<lambda>c. c \<in> set ''0123456789'') (number_string (status response))
   \<and> (hd (number_string (status response)) = CHR ''0'') = (status response = 0)
   \<and> (fetch w url options = Inl failure \<longrightarrow>
        snd (execute (handle_run (fetchState url options) ops) w) = Rejected failure)
   \<and> (fetch w url options = Inr response \<and> 200 \<le> status response \<and> status response \<le> 299
      \<longrightarrow>
      snd (execute (handle_run (fetchState url options) ops) w) = json response
      \<and> (\<forall>body. json response = Resolved body \<and> body \<noteq> Undefined \<longrightarrow>
            value_of (data (fst (execute (handle_run (fetchState url options) ops) w))) = body
            \<and> value_of (error (fst (execute (handle_run (fetchState url options) ops) w)))
                = Null)
      \<and> (\<forall>reason. json response = Rejected reason \<and> reason \<noteq> Undefined \<longrightarrow>
            value_of (error (fst (execute (handle_run (fetchState url options) ops) w)))
              = reason
            \<and> data (fst (execute (handle_run (fetchState url options) ops) w))
                = data (handle_run (fetchState url options) ops)))"
proof -
  let ?h = "handle_run (fetchState url options) ops"
  let ?msg = "''HTTP '' @ number_string (status response) @ '': '' @ statusText response"
  have bad: "handler (fx ?h) w = Rejected (Error (newObject w) ?msg)"
    if "fetch w url options = Inr response"
      "\<not> (200 \<le> status response \<and> status response \<le> 299)"
    using that by (simp add: fetchState_handler fetch_handler_def ok_def)
  have good: "handler (fx ?h) w = json response"
    if "fetch w url options = Inr response"
      "200 \<le> status response \<and> status response \<le> 299"
    using that by (simp add: fetchState_handler fetch_handler_def ok_def)
  have inc1: "str_includes ?msg (number_string (status response))"
    using includes_append [of "''HTTP ''" "number_string (status response)"
        "'': '' @ statusText response"] by simp
  have inc2: "str_includes ?msg (statusText response)"
    using includes_suffix [of "''HTTP '' @ number_string (status response) @ '': ''"
        "statusText response"] by simp
  have first: "snd (execute ?h w) = Rejected (Error (newObject w) ?msg)
      \<and> value_of (error (fst (execute ?h w))) = Error (newObject w) ?msg
      \<and> data (fst (execute ?h w)) = data ?h"
    if "fetch w url options = Inr response
        \<and> \<not> (200 \<le> status response \<and> status response \<le> 299)"
    using bad that
    by (simp add: execute_as_settle execute_settle_Rejected execute_call_fields
          value_of_set_value)
  have second: "snd (execute ?h w) = json response
      \<and> (\<forall>body. json response = Resolved body \<and> body \<noteq> Undefined \<longrightarrow>
            value_of (data (fst (execute ?h w))) = body
            \<and> value_of (error (fst (execute ?h w))) = Null)
      \<and> (\<forall>reason. json response = Rejected reason \<and> reason \<noteq> Undefined \<longrightarrow>
            value_of (error (fst (execute ?h w))) = reason
            \<and> data (fst (execute ?h w)) = data ?h)"
    if "fetch w url options = Inr response
        \<and> 200 \<le> status response \<and> status response \<le> 299"
    using good that
    by (simp add: execute_as_settle execute_settle_Rejected execute_settle_Resolved
          execute_call_fields value_of_set_value)
  have dec: "decimal_value (number_string (status response)) = status response"
    by (rule decimal_value_number_string)
  show ?thesis
  proof (intro conjI impI)
    assume a: "fetch w url options = Inr response
               \<and> \<not> (200 \<le> status response \<and> status response \<le> 299)"
    from first [OF a] show "snd (execute ?h w) = Rejected (Error (newObject w) ?msg)"
      by blast
    from first [OF a] show "value_of (error (fst (execute ?h w))) = Error (newObject w) ?msg"
      by blast
    from first [OF a] show "data (fst (execute ?h w)) = data ?h"
      by blast
    show "str_includes ?msg (number_string (status response))" by (rule inc1)
    show "str_includes ?msg (statusText response)" by (rule inc2)
    show "\<exists>before rest. ?msg = before @ number_string (status response) @ rest"
      using inc1 by (simp only: str_includes_iff)
    show "\<exists>before rest. ?msg = before @ statusText response @ rest"
      using inc2 by (simp only: str_includes_iff)
  next
    show "decimal_value (number_string (status response)) = status response" by (rule dec)
  next
    show "list_all (\<lambda>c. c \<in> set ''0123456789'') (number_string (status response))"
      by (rule number_string_digits)
  next
    show "(hd (number_string (status response)) = CHR ''0'') = (status response = 0)"
      by (rule number_string_leading)
  next
    assume "fetch w url options = Inl failure"
    then show "snd (execute ?h w) = Rejected failure"
      by (simp add: execute_as_settle fetchState_handler fetch_handler_def)
  next
    assume b: "fetch w url options = Inr response
               \<and> 200 \<le> status response \<and> status response \<le> 299"
    from second [OF b] show "snd (execute ?h w) = json response"
      by blast
    from second [OF b] show "\<forall>body. json response = Resolved body \<and> body \<noteq> Undefined \<longrightarrow>
            value_of (data (fst (execute ?h w))) = body
            \<and> value_of (error (fst (execute ?h w))) = Null"
      by blast
    from second [OF b] show "\<forall>reason. json response = Rejected reason \<and> reason \<noteq> Undefined \<longrightarrow>
            value_of (error (fst (execute ?h w))) = reason
            \<and> data (fst (execute ?h w)) = data ?h"
      by blast
  qed
qed

text \<open>
  The scenario of the specification, an endpoint that answers \<^verbatim>\<open>404 Not Found\<close>; an
  endpoint that answers 200 with a body that parses to an object; and the endpoint that
  answers 204 with no body.
\<close>

theorem fetchState_status_mapping_witness:
  "\<not> (200 \<le> (404::nat) \<and> (404::nat) \<le> 299)
   \<and> snd (execute (handle_run (fetchState ''/api/users/1'' ()) [])
        \<lparr>fetch = (\<lambda>u (o'::unit). Inr \<lparr>status = 404, statusText = ''Not Found'',
            json = Resolved Null\<rparr>), newObject = 9\<rparr>)
     = Rejected (Error 9 ''HTTP 404: Not Found'')
   \<and> value_of (error (fst (execute (handle_run (fetchState ''/api/users/1'' ()) [])
        \<lparr>fetch = (\<lambda>u (o'::unit). Inr \<lparr>status = 404, statusText = ''Not Found'',
            json = Resolved Null\<rparr>), newObject = 9\<rparr>)))
     = Error 9 ''HTTP 404: Not Found''
   \<and> str_includes ''HTTP 404: Not Found'' ''404''
   \<and> str_includes ''HTTP 404: Not Found'' ''Not Found''
   \<and> decimal_value ''404'' = 404
   \<and> snd (execute (handle_run (fetchState ''/api/users/1'' ()) [])
        \<lparr>fetch = (\<lambda>u (o'::unit). Inr \<lparr>status = 200, statusText = ''OK'',
            json = Resolved (Object 3)\<rparr>), newObject = 9\<rparr>)
     = Resolved (Object 3)
   \<and> value_of (data (fst (execute (handle_run (fetchState ''/api/users/1'' ()) [])
        \<lparr>fetch = (\<lambda>u (o'::unit). Inr \<lparr>status = 200, statusText = ''OK'',
            json = Resolved (Object 3)\<rparr>), newObject = 9\<rparr>)))
     = Object 3
   \<and> value_of (error (fst (execute (handle_run (fetchState ''/api/users/1'' ()) [])
        \<lparr>fetch = (\<lambda>u (o'::unit). Inr \<lparr>status = 204, statusText = ''No Content'',
            json = Rejected (Error 8 ''Unexpected end of JSON input'')\<rparr>),
         newObject = 9\<rparr>)))
     = Error 8 ''Unexpected end of JSON input''
   \<and> snd (execute (handle_run (fetchState ''/api/users/1'' ()) [])
        \<lparr>fetch = (\<lambda>u (o'::unit). Inl (Error 5 ''Failed to fetch'')), newObject = 9\<rparr>)
     = Rejected (Error 5 ''Failed to fetch'')"
proof -
  let ?r404 = "\<lparr>status = 404, statusText = ''Not Found'', json = Resolved Null\<rparr>"
  let ?r200 = "\<lparr>status = 200, statusText = ''OK'', json = Resolved (Object 3)\<rparr>"
  let ?r204 = "\<lparr>status = 204, statusText = ''No Content'',
                json = Rejected (Error 8 ''Unexpected end of JSON input'')\<rparr>"
  let ?w404 = "\<lparr>fetch = (\<lambda>(u::string) (o'::unit). Inr ?r404), newObject = 9\<rparr>"
  let ?w200 = "\<lparr>fetch = (\<lambda>(u::string) (o'::unit). Inr ?r200), newObject = 9\<rparr>"
  let ?w204 = "\<lparr>fetch = (\<lambda>(u::string) (o'::unit). Inr ?r204), newObject = 9\<rparr>"
  let ?h = "handle_run (fetchState ''/api/users/1'' ()) [] :: unit world async_handle"
  have bad: "fetch ?w404 ''/api/users/1'' () = Inr ?r404
             \<and> \<not> (200 \<le> status ?r404 \<and> status ?r404 \<le> 299)"
    by simp
  have good: "fetch ?w200 ''/api/users/1'' () = Inr ?r200
              \<and> 200 \<le> status ?r200 \<and> status ?r200 \<le> 299"
    by simp
  have empty: "fetch ?w204 ''/api/users/1'' () = Inr ?r204
               \<and> 200 \<le> status ?r204 \<and> status ?r204 \<le> 299"
    by simp
  have body: "json ?r200 = Resolved (Object 3) \<and> Object 3 \<noteq> Undefined" by simp
  have reason: "json ?r204 = Rejected (Error 8 ''Unexpected end of JSON input'')
                \<and> Error 8 ''Unexpected end of JSON input'' \<noteq> Undefined"
    by simp
  from fetchState_status_mapping [of ?w404 "''/api/users/1''" "()" ?r404 "[]"] bad
  have first: "snd (execute ?h ?w404)
        = Rejected (Error 9 (''HTTP '' @ number_string 404 @ '': '' @ ''Not Found''))
      \<and> value_of (error (fst (execute ?h ?w404)))
        = Error 9 (''HTTP '' @ number_string 404 @ '': '' @ ''Not Found'')
      \<and> str_includes (''HTTP '' @ number_string 404 @ '': '' @ ''Not Found'')
          (number_string 404)
      \<and> str_includes (''HTTP '' @ number_string 404 @ '': '' @ ''Not Found'') ''Not Found''
      \<and> decimal_value (number_string 404) = 404"
    by simp
  from fetchState_status_mapping [of ?w200 "''/api/users/1''" "()" ?r200 "[]"] good body
  have second: "snd (execute ?h ?w200) = Resolved (Object 3)
      \<and> value_of (data (fst (execute ?h ?w200))) = Object 3"
    by simp
  from fetchState_status_mapping [of ?w204 "''/api/users/1''" "()" ?r204 "[]"] empty reason
  have third: "value_of (error (fst (execute ?h ?w204)))
      = Error 8 ''Unexpected end of JSON input''"
    by simp
  let ?down = "\<lparr>fetch = (\<lambda>(u::string) (o'::unit). Inl (Error 5 ''Failed to fetch'')),
                newObject = 9\<rparr> :: unit world"
  have failed: "fetch ?down ''/api/users/1'' () = Inl (Error 5 ''Failed to fetch'')"
    by simp
  from fetchState_status_mapping
    [of ?down "''/api/users/1''" "()" _ "[]" "Error 5 ''Failed to fetch''"] failed
  have fourth: "snd (execute ?h ?down) = Rejected (Error 5 ''Failed to fetch'')"
    by blast
  from first second third fourth show ?thesis
    by (simp add: number_string_404)
qed


section \<open>Derived value: \<^verbatim>\<open>src/computed.ts\<close>\<close>

text \<open>
  \<^verbatim>\<open>
  export function computed<T>(dependencies: Store<unknown>[], fn: (...values: unknown[]) => T) {
    const $computed = sample({ source: dependencies, fn: (values) => fn(...values) });
    return { $state: $computed,
      get value() { return $computed.getState(); },
      subscribe(fn) { return $computed.watch(fn); } };
  }
  \<close>
  With an array of stores as its source and nothing else, \<^verbatim>\<open>sample\<close> creates a store
  whose first state is \<^verbatim>\<open>fn\<close> of the sources' states (so it raises, as \<^verbatim>\<open>createStore\<close>
  does, when that is \<^verbatim>\<open>undefined\<close>), and which receives \<^verbatim>\<open>fn\<close> of the sources' states
  whenever one of the sources updates. It is a store like any other: it drops what it
  receives when that is \<^verbatim>\<open>undefined\<close> or \<^verbatim>\<open>===\<close> its state.

  The source stores are shared with the cells they belong to. The cells live in a heap
  (a list, a cell's address is its index), the derived value refers to its sources by
  address, in the order of the array, and a call on a cell goes through the heap. A call
  on an address with no cell does nothing.
\<close>

record computed_graph =
  cells :: "store list"
  dependencies :: "nat list"
  fn :: "js_value list \<Rightarrow> js_value"
  computed_store :: store

definition source_values :: "store list \<Rightarrow> nat list \<Rightarrow> js_value list" where
  "source_values cs deps = map (\<lambda>i. getState (cs ! i)) deps"

definition computed ::
  "store list \<Rightarrow> nat list \<Rightarrow> (js_value list \<Rightarrow> js_value) \<Rightarrow> thrown + computed_graph" where
  "computed cs deps f =
     (case createStore (f (source_values cs deps)) of
        Inl exception \<Rightarrow> Inl exception
      | Inr computed_state \<Rightarrow>
          Inr \<lparr>cells = cs, dependencies = deps, fn = f, computed_store = computed_state\<rparr>)"

definition computed_value :: "computed_graph \<Rightarrow> js_value" where
  "computed_value g = getState (computed_store g)"

datatype graph_op =
    OnCell nat cell_op
  | SubscribeComputed
  | UnsubscribeComputed nat

fun graph_step :: "computed_graph \<Rightarrow> graph_op \<Rightarrow> computed_graph" where
  "graph_step g (OnCell i x) =
     (if i < length (cells g)
      then (let c = cells g ! i;
                g' = g\<lparr>cells := (cells g)[i := cell_step c x]\<rparr>
            in if cell_updates c x \<and> i \<in> set (dependencies g)
               then g'\<lparr>computed_store :=
                         store_update (computed_store g')
                           (fn g' (source_values (cells g') (dependencies g')))\<rparr>
               else g')
      else g)"
| "graph_step g SubscribeComputed = g\<lparr>computed_store := fst (watch (computed_store g))\<rparr>"
| "graph_step g (UnsubscribeComputed w) = g\<lparr>computed_store := unwatch (computed_store g) w\<rparr>"

definition graph_run :: "computed_graph \<Rightarrow> graph_op list \<Rightarrow> computed_graph" where
  "graph_run g ops = foldl graph_step g ops"

text \<open>
  The invariant: the sources are cells of the heap, and the derived store holds \<^verbatim>\<open>fn\<close>
  of its sources' current values whenever that is not \<^verbatim>\<open>undefined\<close>.
\<close>

definition in_step :: "computed_graph \<Rightarrow> bool" where
  "in_step g =
     (list_all (\<lambda>i. i < length (cells g)) (dependencies g)
      \<and> (fn g (source_values (cells g) (dependencies g)) = Undefined
          \<or> computed_value g = fn g (source_values (cells g) (dependencies g))))"

lemma source_values_same:
  "getState c' = getState (cs ! i) \<Longrightarrow> i < length cs \<Longrightarrow>
   source_values (cs[i := c']) deps = source_values cs deps"
  by (auto simp: source_values_def nth_list_update)

lemma source_values_other:
  "i \<notin> set deps \<Longrightarrow> source_values (cs[i := c']) deps = source_values cs deps"
proof -
  assume "i \<notin> set deps"
  then have "\<forall>j \<in> set deps. cs[i := c'] ! j = cs ! j"
    by (metis nth_list_update_neq)
  then show ?thesis by (simp add: source_values_def)
qed

lemma graph_step_static:
  "fn (graph_step g x) = fn g"
  "dependencies (graph_step g x) = dependencies g"
  "length (cells (graph_step g x)) = length (cells g)"
  by (cases x; simp add: Let_def)+

lemma graph_step_in_step:
  assumes "in_step g"
  shows "in_step (graph_step g x)"
proof (cases x)
  case (OnCell i y)
  show ?thesis
  proof (cases "i < length (cells g)")
    case False
    with OnCell assms show ?thesis by simp
  next
    case inside: True
    let ?c' = "cell_step (cells g ! i) y"
    let ?cs' = "(cells g)[i := ?c']"
    have valid: "list_all (\<lambda>j. j < length ?cs') (dependencies g)"
      using assms by (simp add: in_step_def)
    show ?thesis
    proof (cases "cell_updates (cells g ! i) y \<and> i \<in> set (dependencies g)")
      case True
      then have "graph_step g x =
          g\<lparr>cells := ?cs',
            computed_store := store_update (computed_store g)
              (fn g (source_values ?cs' (dependencies g)))\<rparr>"
        using OnCell inside by (simp add: Let_def)
      with valid show ?thesis
        by (simp add: in_step_def computed_value_def getState_def store_update_currentState)
    next
      case False
      then have step: "graph_step g x = g\<lparr>cells := ?cs'\<rparr>"
        using OnCell inside by (auto simp: Let_def)
      from False have "source_values ?cs' (dependencies g)
                         = source_values (cells g) (dependencies g)"
        using source_values_same [of ?c' "cells g" i "dependencies g"] inside
          source_values_other [of i "dependencies g" "cells g" ?c']
          cell_step_same_state [of "cells g ! i" y]
        by (auto simp: getState_def)
      with step assms valid show ?thesis
        by (simp add: in_step_def computed_value_def)
    qed
  qed
next
  case SubscribeComputed
  with assms show ?thesis
    by (simp add: in_step_def computed_value_def getState_def watch_def)
next
  case (UnsubscribeComputed w)
  with assms show ?thesis
    by (simp add: in_step_def computed_value_def getState_def unwatch_def)
qed

lemma graph_run_in_step: "in_step g \<Longrightarrow> in_step (graph_run g ops)"
  unfolding graph_run_def
proof (induction ops arbitrary: g)
  case Nil
  then show ?case by simp
next
  case (Cons x xs)
  from graph_step_in_step [OF Cons.prems]
  show ?case using Cons.IH [of "graph_step g x"] by simp
qed

lemma graph_run_static:
  "fn (graph_run g ops) = fn g"
  "dependencies (graph_run g ops) = dependencies g"
  unfolding graph_run_def
  by (induction ops arbitrary: g; simp add: graph_step_static)+

lemma computed_cases:
  "computed cs deps f =
     (if f (source_values cs deps) = Undefined then Inl StateUndefined
      else Inr \<lparr>cells = cs, dependencies = deps, fn = f,
                computed_store = new_store (f (source_values cs deps))\<rparr>)"
  by (simp add: computed_def createStore_def)

lemma computed_in_step:
  "list_all (\<lambda>i. i < length cs) deps \<Longrightarrow> computed cs deps f = Inr g \<Longrightarrow> in_step g"
  by (auto simp: computed_cases in_step_def computed_value_def getState_def new_store_def
        split: if_splits)

lemma computed_fields:
  "computed cs deps f = Inr g \<Longrightarrow> fn g = f \<and> dependencies g = deps \<and> cells g = cs"
  by (auto simp: computed_cases split: if_splits)

lemma graph_step_drops_Undefined:
  "fn g (source_values (cells (graph_step g x)) (dependencies g)) = Undefined \<Longrightarrow>
   computed_value (graph_step g x) = computed_value g"
proof (cases x)
  case (OnCell i y)
  assume "fn g (source_values (cells (graph_step g x)) (dependencies g)) = Undefined"
  with OnCell show ?thesis
    by (auto simp: Let_def computed_value_def split: if_splits)
next
  case SubscribeComputed
  then show ?thesis by (simp add: computed_value_def getState_def watch_def)
next
  case (UnsubscribeComputed w)
  then show ?thesis by (simp add: computed_value_def getState_def unwatch_def)
qed


text \<open>
  C6 as stated fails when \<^verbatim>\<open>fn\<close> returns \<^verbatim>\<open>undefined\<close>. A cell holds a name; the derived
  value is \<^verbatim>\<open>computed([name.$state], (n) => ...)\<close> with a function that gives a boolean
  for a string and \<^verbatim>\<open>undefined\<close> for anything else, as a function written with
  optional chaining does for \<^verbatim>\<open>null\<close>. After \<^verbatim>\<open>name.set(null)\<close> the function gives
  \<^verbatim>\<open>undefined\<close> on the source's current value, the derived store drops it, and the
  derived value still reads \<^verbatim>\<open>true\<close>.
\<close>

theorem computed_undefined_counterexample:
  "(case computed [State (Text ''ann'')] [0]
           (\<lambda>vs. case vs of [Text n] \<Rightarrow> Boolean (n \<noteq> []) | _ \<Rightarrow> Undefined) of
      Inl exception \<Rightarrow> False
    | Inr g \<Rightarrow>
        computed_value (graph_run g [OnCell 0 (Set Null)]) = Boolean True
        \<and> source_values (cells (graph_run g [OnCell 0 (Set Null)])) [0] = [Null])
   \<and> (case [Null] of [Text n] \<Rightarrow> Boolean (n \<noteq> []) | _ \<Rightarrow> Undefined) = Undefined"
  by (simp add: computed_cases graph_run_def source_values_def State_new_store new_store_def
        Let_def getState_def set_value_def store_update_def accepts_def strict_equal_def
        computed_value_def)

text \<open>
  C6, amended. \<^verbatim>\<open>computed(sources, fn)\<close> raises when \<^verbatim>\<open>fn\<close> returns \<^verbatim>\<open>undefined\<close> on the
  sources' initial values, and otherwise gives a Derived Value \<open>D\<close> whose value is
  \<^verbatim>\<open>fn\<close> of those values. For such a \<open>D\<close>, at every point after construction and
  after any sequence of calls on the cells: whenever \<^verbatim>\<open>fn\<close> applied to the sources'
  current values, in the order of the source array, is not \<^verbatim>\<open>undefined\<close>, \<^verbatim>\<open>D.value\<close> is
  that result. A call after which \<^verbatim>\<open>fn\<close> gives \<^verbatim>\<open>undefined\<close> on the sources' values
  leaves \<^verbatim>\<open>D.value\<close> as it was. The sources are cells of the heap.
\<close>

theorem computed_value_follows_sources:
  "(list_all (\<lambda>i. i < length cs) deps \<and> computed cs deps f = Inr g
    \<and> f (map (\<lambda>i. value_of (cells (graph_run g ops) ! i)) deps) \<noteq> Undefined
    \<longrightarrow> computed_value (graph_run g ops)
          = f (map (\<lambda>i. value_of (cells (graph_run g ops) ! i)) deps))
   \<and> (computed cs deps f = Inr g
      \<and> f (map (\<lambda>i. value_of (cells (graph_step (graph_run g ops) x) ! i)) deps) = Undefined
      \<longrightarrow> computed_value (graph_step (graph_run g ops) x) = computed_value (graph_run g ops))
   \<and> (f (map (\<lambda>i. value_of (cs ! i)) deps) = Undefined
      \<longrightarrow> computed cs deps f = Inl StateUndefined)
   \<and> (f (map (\<lambda>i. value_of (cs ! i)) deps) \<noteq> Undefined
      \<longrightarrow> (\<exists>d. computed cs deps f = Inr d
               \<and> computed_value d = f (map (\<lambda>i. value_of (cs ! i)) deps)))"
proof (intro conjI impI)
  assume a: "list_all (\<lambda>i. i < length cs) deps \<and> computed cs deps f = Inr g
    \<and> f (map (\<lambda>i. value_of (cells (graph_run g ops) ! i)) deps) \<noteq> Undefined"
  then have "in_step g" using computed_in_step [of cs deps f g] by blast
  then have "in_step (graph_run g ops)" by (rule graph_run_in_step)
  moreover have "fn (graph_run g ops) = f" "dependencies (graph_run g ops) = deps"
    using a computed_fields [of cs deps f g] by (simp_all add: graph_run_static)
  ultimately show "computed_value (graph_run g ops)
      = f (map (\<lambda>i. value_of (cells (graph_run g ops) ! i)) deps)"
    using a by (simp add: in_step_def source_values_def value_of_def)
next
  assume b: "computed cs deps f = Inr g
      \<and> f (map (\<lambda>i. value_of (cells (graph_step (graph_run g ops) x) ! i)) deps) = Undefined"
  then have "fn (graph_run g ops) = f" "dependencies (graph_run g ops) = deps"
    using computed_fields [of cs deps f g] by (simp_all add: graph_run_static)
  with b show "computed_value (graph_step (graph_run g ops) x) = computed_value (graph_run g ops)"
    using graph_step_drops_Undefined [of "graph_run g ops" x]
    by (simp add: source_values_def value_of_def)
next
  assume "f (map (\<lambda>i. value_of (cs ! i)) deps) = Undefined"
  then show "computed cs deps f = Inl StateUndefined"
    by (simp add: computed_cases source_values_def value_of_def)
next
  assume "f (map (\<lambda>i. value_of (cs ! i)) deps) \<noteq> Undefined"
  then show "\<exists>d. computed cs deps f = Inr d
      \<and> computed_value d = f (map (\<lambda>i. value_of (cs ! i)) deps)"
    by (simp add: computed_cases source_values_def value_of_def computed_value_def
          getState_def new_store_def)
qed

text \<open>
  The scenario of the specification, \<^verbatim>\<open>computed([C1, C2], (a, b) => a + b)\<close> with
  \<^verbatim>\<open>C1.set(3); C2.set(4)\<close>; the derived value over the name, when the name is set to
  \<^verbatim>\<open>null\<close>; and the same derived value asked for over a cell that holds \<^verbatim>\<open>null\<close>.
\<close>

theorem computed_value_follows_sources_witness:
  "list_all (\<lambda>i. i < length [State (Number 1), State (Number 2)]) [0, 1]
   \<and> computed [State (Number 1), State (Number 2)] [0, 1]
        (\<lambda>vs. case vs of [Number a, Number b] \<Rightarrow> Number (a + b) | _ \<Rightarrow> NaN)
      = Inr \<lparr>cells = [State (Number 1), State (Number 2)], dependencies = [0, 1],
             fn = (\<lambda>vs. case vs of [Number a, Number b] \<Rightarrow> Number (a + b) | _ \<Rightarrow> NaN),
             computed_store = new_store (Number 3)\<rparr>
   \<and> computed_value (graph_run
        \<lparr>cells = [State (Number 1), State (Number 2)], dependencies = [0, 1],
         fn = (\<lambda>vs. case vs of [Number a, Number b] \<Rightarrow> Number (a + b) | _ \<Rightarrow> NaN),
         computed_store = new_store (Number 3)\<rparr>
        [OnCell 0 (Set (Number 3)), OnCell 1 (Set (Number 4))]) = Number 7
   \<and> computed [State (Text ''ann'')] [0]
        (\<lambda>vs. case vs of [Text n] \<Rightarrow> Boolean (n \<noteq> []) | _ \<Rightarrow> Undefined)
      = Inr \<lparr>cells = [State (Text ''ann'')], dependencies = [0],
             fn = (\<lambda>vs. case vs of [Text n] \<Rightarrow> Boolean (n \<noteq> []) | _ \<Rightarrow> Undefined),
             computed_store = new_store (Boolean True)\<rparr>
   \<and> computed_value (graph_step (graph_run
        \<lparr>cells = [State (Text ''ann'')], dependencies = [0],
         fn = (\<lambda>vs. case vs of [Text n] \<Rightarrow> Boolean (n \<noteq> []) | _ \<Rightarrow> Undefined),
         computed_store = new_store (Boolean True)\<rparr> []) (OnCell 0 (Set Null)))
      = Boolean True
   \<and> computed [State Null] [0]
        (\<lambda>vs. case vs of [Text n] \<Rightarrow> Boolean (n \<noteq> []) | _ \<Rightarrow> Undefined)
      = Inl StateUndefined"
proof -
  let ?sum = "\<lambda>vs. case vs of [Number a, Number b] \<Rightarrow> Number (a + b) | _ \<Rightarrow> NaN"
  let ?cs = "[State (Number 1), State (Number 2)]"
  let ?g = "\<lparr>cells = ?cs, dependencies = [0, 1], fn = ?sum,
             computed_store = new_store (Number 3)\<rparr>"
  let ?ops = "[OnCell 0 (Set (Number 3)), OnCell 1 (Set (Number 4))]"
  let ?named = "\<lambda>vs. case vs of [Text n] \<Rightarrow> Boolean (n \<noteq> []) | _ \<Rightarrow> Undefined"
  let ?ns = "[State (Text ''ann'')]"
  let ?k = "\<lparr>cells = ?ns, dependencies = [0], fn = ?named,
             computed_store = new_store (Boolean True)\<rparr>"
  have valid: "list_all (\<lambda>i. i < length ?cs) [0, 1]" by simp
  have made: "computed ?cs [0, 1] ?sum = Inr ?g"
    by (simp add: computed_cases source_values_def getState_State)
  have heap: "map (\<lambda>i. value_of (cells (graph_run ?g ?ops) ! i)) [0, 1]
                = [Number 3, Number 4]"
    by (simp add: graph_run_def source_values_def State_new_store new_store_def Let_def
          getState_def set_value_def store_update_def accepts_def strict_equal_def
          value_of_def)
  have defined: "?sum (map (\<lambda>i. value_of (cells (graph_run ?g ?ops) ! i)) [0, 1]) \<noteq> Undefined"
    unfolding heap by simp
  from computed_value_follows_sources [of ?cs "[0, 1]" ?sum ?g ?ops] valid made defined
  have first: "computed_value (graph_run ?g ?ops)
      = ?sum (map (\<lambda>i. value_of (cells (graph_run ?g ?ops) ! i)) [0, 1])"
    by blast
  then have seven: "computed_value (graph_run ?g ?ops) = Number 7"
    unfolding heap by simp
  have made': "computed ?ns [0] ?named = Inr ?k"
    by (simp add: computed_cases source_values_def getState_State)
  have gone: "?named (map (\<lambda>i. value_of (cells (graph_step (graph_run ?k []) (OnCell 0 (Set Null))) ! i))
                [0]) = Undefined"
    by (simp add: graph_run_def State_new_store new_store_def Let_def getState_def
          set_value_def store_update_def accepts_def strict_equal_def value_of_def)
  from computed_value_follows_sources [of ?ns "[0]" ?named ?k "[]" "OnCell 0 (Set Null)"]
    made' gone
  have second: "computed_value (graph_step (graph_run ?k []) (OnCell 0 (Set Null)))
      = computed_value (graph_run ?k [])"
    by blast
  have absent: "?named (map (\<lambda>i. value_of ([State Null] ! i)) [0]) = Undefined"
    by (simp add: State_value)
  from computed_value_follows_sources [of "[State Null]" "[0]" ?named] absent
  have third: "computed [State Null] [0] ?named = Inl StateUndefined"
    by blast
  have start: "computed_value (graph_run ?k []) = Boolean True"
    by (simp add: graph_run_def computed_value_def getState_def new_store_def)
  from valid made seven made' second start third show ?thesis
    by simp
qed

end
